theory Spec2Isabelle
  imports Complex_Main "HOL-Library.Sublist"
begin

section \<open>Values and errors\<close>

text \<open>
  The program is dynamically typed and reads its data from a JSON file, so a value read
  from the file can be any JSON value. \<open>json\<close> is the Python object that
  \<^verbatim>\<open>json.load\<close> returns: \<^verbatim>\<open>None\<close>, a bool, an int, a float, a str, a list or
  a dict with str keys (an association list whose keys are distinct, looked up with
  \<open>map_of\<close>).

  A \<open>string\<close> is the UTF-8 encoding of a Python str. Python ints are unbounded.
  A finite float is kept as the rational it denotes.
\<close>

datatype pyfloat = Finite rat | Infinite | NaN

datatype json =
    JNull
  | JBool bool
  | JInt int
  | JFloat pyfloat
  | JStr string
  | JArr "json list"
  | JObj "(string \<times> json) list"

text \<open>The exceptions that the operations of the program can let escape.\<close>

datatype error =
  KeyError | ValueError | TypeError | OverflowError | AttributeError | UnicodeDecodeError

text \<open>Sequencing of two steps; an exception of the first step ends the computation.\<close>

definition bind :: "error + 'a \<Rightarrow> ('a \<Rightarrow> error + 'b) \<Rightarrow> error + 'b" where
  "bind r f = (case r of Inl e \<Rightarrow> Inl e | Inr x \<Rightarrow> f x)"

text \<open>A list comprehension whose element expression can raise: left to right, the first
  exception escapes.\<close>

fun map_result :: "('a \<Rightarrow> error + 'b) \<Rightarrow> 'a list \<Rightarrow> error + 'b list" where
  "map_result f [] = Inr []"
| "map_result f (x # xs) =
     bind (f x) (\<lambda>y. bind (map_result f xs) (\<lambda>ys. Inr (y # ys)))"

text \<open>A list comprehension whose condition can raise.\<close>

fun filter_result :: "('a \<Rightarrow> error + bool) \<Rightarrow> 'a list \<Rightarrow> error + 'a list" where
  "filter_result c [] = Inr []"
| "filter_result c (x # xs) =
     bind (c x) (\<lambda>keep. bind (filter_result c xs) (\<lambda>ys. Inr (if keep then x # ys else ys)))"

section \<open>The built-ins \<^verbatim>\<open>str\<close> and \<^verbatim>\<open>int\<close>\<close>

definition digit_char :: "nat \<Rightarrow> char" where
  "digit_char d = char_of (48 + d)"

definition is_digit :: "char \<Rightarrow> bool" where
  "is_digit c = (48 \<le> (of_char c :: nat) \<and> (of_char c :: nat) \<le> 57)"

definition digit_val :: "char \<Rightarrow> nat" where
  "digit_val c = of_char c - 48"

text \<open>The decimal digits of a natural number, most significant first.\<close>

fun digits_of :: "nat \<Rightarrow> string" where
  "digits_of n =
     (if n < 10 then [digit_char n] else digits_of (n div 10) @ [digit_char (n mod 10)])"

declare digits_of.simps [simp del]

text \<open>\<^verbatim>\<open>str(n)\<close> for an int.\<close>

definition str_int :: "int \<Rightarrow> string" where
  "str_int n = (if n < 0 then CHR ''-'' # digits_of (nat (- n)) else digits_of (nat n))"

text \<open>
  \<^verbatim>\<open>int(s)\<close> for a str, in base 10: white space around the literal is skipped, one sign
  may come first, then digits, where one underscore may stand between two digits. The
  model reads ASCII: the white space is that of C (blank, \<^verbatim>\<open>\t \n \v \f \r\<close>) and the
  digits are \<^verbatim>\<open>0\<close> to \<^verbatim>\<open>9\<close>. (Python also takes the decimal digits and the white space
  of other scripts; a str that holds them is outside this model.)
\<close>

definition is_space :: "char \<Rightarrow> bool" where
  "is_space c = (c \<in> set [CHR 0x20, CHR 0x09, CHR 0x0A, CHR 0x0B, CHR 0x0C, CHR 0x0D])"

definition strip :: "string \<Rightarrow> string" where
  "strip s = rev (dropWhile is_space (rev (dropWhile is_space s)))"

fun digits_val :: "nat \<Rightarrow> string \<Rightarrow> nat option" where
  "digits_val acc [] = Some acc"
| "digits_val acc (c # cs) =
     (if is_digit c then digits_val (10 * acc + digit_val c) cs
      else if c = CHR ''_'' then
        (case cs of
           [] \<Rightarrow> None
         | d # ds \<Rightarrow> if is_digit d then digits_val (10 * acc + digit_val d) ds else None)
      else None)"

definition parse_nat :: "string \<Rightarrow> nat option" where
  "parse_nat s =
     (case s of
        [] \<Rightarrow> None
      | c # cs \<Rightarrow> if is_digit c then digits_val (digit_val c) cs else None)"

definition int_of_str :: "string \<Rightarrow> error + int" where
  "int_of_str s =
     (case strip s of
        [] \<Rightarrow> Inl ValueError
      | c # cs \<Rightarrow>
          if c = CHR ''-'' then
            (case parse_nat cs of None \<Rightarrow> Inl ValueError | Some n \<Rightarrow> Inr (- int n))
          else if c = CHR ''+'' then
            (case parse_nat cs of None \<Rightarrow> Inl ValueError | Some n \<Rightarrow> Inr (int n))
          else
            (case parse_nat (c # cs) of None \<Rightarrow> Inl ValueError | Some n \<Rightarrow> Inr (int n)))"

text \<open>\<^verbatim>\<open>int(x)\<close> for a float: the fraction is cut off, towards zero.\<close>

definition int_of_float :: "pyfloat \<Rightarrow> error + int" where
  "int_of_float f =
     (case f of
        Finite q \<Rightarrow> Inr (if 0 \<le> q then \<lfloor>q\<rfloor> else \<lceil>q\<rceil>)
      | Infinite \<Rightarrow> Inl OverflowError
      | NaN \<Rightarrow> Inl ValueError)"

text \<open>\<^verbatim>\<open>int(x)\<close> for any value read from the file.\<close>

definition py_int :: "json \<Rightarrow> error + int" where
  "py_int v =
     (case v of
        JNull \<Rightarrow> Inl TypeError
      | JBool b \<Rightarrow> Inr (if b then 1 else 0)
      | JInt n \<Rightarrow> Inr n
      | JFloat f \<Rightarrow> int_of_float f
      | JStr s \<Rightarrow> int_of_str s
      | JArr _ \<Rightarrow> Inl TypeError
      | JObj _ \<Rightarrow> Inl TypeError)"

text \<open>\<^verbatim>\<open>data[key]\<close> with a str key: only a dict can be subscripted with a str.\<close>

definition subscript :: "json \<Rightarrow> string \<Rightarrow> error + json" where
  "subscript data key =
     (case data of
        JObj kvs \<Rightarrow> (case map_of kvs key of None \<Rightarrow> Inl KeyError | Some v \<Rightarrow> Inr v)
      | _ \<Rightarrow> Inl TypeError)"

section \<open>books.py\<close>

text \<open>
  The class \<^verbatim>\<open>Book\<close>. The constructor stores its arguments as they come, so only
  \<open>id'\<close> and \<open>year\<close>, which \<^verbatim>\<open>from_dict\<close> passes through \<^verbatim>\<open>int\<close>, are known to be
  ints; the other three fields hold what the file held. (The field \<^verbatim>\<open>id\<close> is named
  \<open>id'\<close> here, \<open>id\<close> being the identity function of HOL.)
\<close>

record Book =
  id' :: int
  title :: json
  author :: json
  year :: int
  status :: json

definition to_dict :: "Book \<Rightarrow> json" where
  "to_dict b =
     JObj [(''id'', JStr (str_int (id' b))),
           (''title'', title b),
           (''author'', author b),
           (''year'', JStr (str_int (year b))),
           (''status'', status b)]"

text \<open>The arguments of the constructor call are evaluated in the order written.\<close>

definition from_dict :: "json \<Rightarrow> error + Book" where
  "from_dict data =
     bind (bind (subscript data ''id'') py_int) (\<lambda>i.
     bind (subscript data ''title'') (\<lambda>t.
     bind (subscript data ''author'') (\<lambda>a.
     bind (bind (subscript data ''year'') py_int) (\<lambda>y.
     bind (subscript data ''status'') (\<lambda>s.
     Inr \<lparr>id' = i, title = t, author = a, year = y, status = s\<rparr>)))))"

section \<open>The built-ins used by the search\<close>

text \<open>
  \<^verbatim>\<open>s.lower()\<close> on the UTF-8 encoding: the letters \<^verbatim>\<open>A\<close> to \<^verbatim>\<open>Z\<close> and the Cyrillic
  capitals U+0400 to U+042F (two bytes each, the first \<^verbatim>\<open>0xD0\<close>) are mapped to their
  small letters. (Python maps the capitals of every script; those of other scripts are
  left as they are here. The theorems on the search hold for any case mapping.)
\<close>

definition lower_ascii :: "char \<Rightarrow> char" where
  "lower_ascii c =
     (if 65 \<le> (of_char c :: nat) \<and> (of_char c :: nat) \<le> 90
      then char_of (of_char c + 32 :: nat) else c)"

fun lower_str :: "string \<Rightarrow> string" where
  "lower_str (c # d # cs) =
     (if c = CHR 0xD0 \<and> 0x80 \<le> (of_char d :: nat) \<and> (of_char d :: nat) \<le> 0x8F
        then CHR 0xD1 # char_of (of_char d + 0x10 :: nat) # lower_str cs
      else if c = CHR 0xD0 \<and> 0x90 \<le> (of_char d :: nat) \<and> (of_char d :: nat) \<le> 0x9F
        then CHR 0xD0 # char_of (of_char d + 0x20 :: nat) # lower_str cs
      else if c = CHR 0xD0 \<and> 0xA0 \<le> (of_char d :: nat) \<and> (of_char d :: nat) \<le> 0xAF
        then CHR 0xD1 # char_of (of_char d - 0x20 :: nat) # lower_str cs
      else lower_ascii c # lower_str (d # cs))"
| "lower_str [c] = [lower_ascii c]"
| "lower_str [] = []"

text \<open>\<^verbatim>\<open>x.lower()\<close> for any value: only a str has the method.\<close>

definition lower :: "json \<Rightarrow> error + string" where
  "lower v = (case v of JStr s \<Rightarrow> Inr (lower_str s) | _ \<Rightarrow> Inl AttributeError)"

text \<open>
  \<^verbatim>\<open>a in b\<close> for two strs is \<open>sublist a b\<close>: \<open>a\<close> occurs in \<open>b\<close> as a contiguous
  run. The truth value of an optional argument in an \<^verbatim>\<open>if\<close>: \<^verbatim>\<open>None\<close>, the empty str
  and the int 0 are false.
\<close>

definition truthy_str :: "string option \<Rightarrow> bool" where
  "truthy_str x = (case x of None \<Rightarrow> False | Some s \<Rightarrow> s \<noteq> [])"

definition truthy_int :: "int option \<Rightarrow> bool" where
  "truthy_int x = (case x of None \<Rightarrow> False | Some n \<Rightarrow> n \<noteq> 0)"

text \<open>\<^verbatim>\<open>max(xs, default=d)\<close>.\<close>

definition max_default :: "int list \<Rightarrow> int \<Rightarrow> int" where
  "max_default xs d = (case xs of [] \<Rightarrow> d | x # ys \<Rightarrow> fold max ys x)"

section \<open>library.py\<close>

text \<open>
  The file is opened as UTF-8 text and the JSON codec belongs to the standard library, so
  a file is kept as what \<^verbatim>\<open>json.load\<close> makes of it: bytes that are not UTF-8, on
  which reading the file raises \<^verbatim>\<open>UnicodeDecodeError\<close> (\<open>Undecodable\<close>, with the
  bytes); text that the codec rejects with \<^verbatim>\<open>JSONDecodeError\<close> (\<open>Unparsable\<close>, with
  the text); or the value that it returns (\<open>Parsed\<close>).
  \<^verbatim>\<open>json.dump\<close> of a value leaves a file that \<^verbatim>\<open>json.load\<close> reads as that value.
  The file system maps a path to its file, \<open>None\<close> where there is no file; every path
  can be opened for writing.
\<close>

datatype file_content = Undecodable string | Unparsable string | Parsed json

type_synonym fs = "string \<Rightarrow> file_content option"

text \<open>
  What a \<^verbatim>\<open>for\<close> over a value goes through: the elements of a list, the keys of a dict,
  the characters of a str (each a str; here one per byte, which \<open>from_dict\<close> cannot tell
  apart). Anything else is not iterable.
\<close>

definition iterate :: "json \<Rightarrow> error + json list" where
  "iterate v =
     (case v of
        JArr xs \<Rightarrow> Inr xs
      | JObj kvs \<Rightarrow> Inr (map (\<lambda>kv. JStr (fst kv)) kvs)
      | JStr s \<Rightarrow> Inr (map (\<lambda>c. JStr [c]) s)
      | _ \<Rightarrow> Inl TypeError)"

text \<open>
  \<^verbatim>\<open>load_library\<close>: \<^verbatim>\<open>FileNotFoundError\<close> and \<^verbatim>\<open>JSONDecodeError\<close> are caught and give
  the empty list. \<^verbatim>\<open>UnicodeDecodeError\<close> is neither of the two (it is a \<^verbatim>\<open>ValueError\<close>,
  as \<^verbatim>\<open>JSONDecodeError\<close> is, but not a \<^verbatim>\<open>JSONDecodeError\<close>), so it escapes, and so does
  what the comprehension raises.
\<close>

definition load_library :: "string \<Rightarrow> fs \<Rightarrow> error + Book list" where
  "load_library file_path fs =
     (case fs file_path of
        None \<Rightarrow> Inr []
      | Some (Undecodable _) \<Rightarrow> Inl UnicodeDecodeError
      | Some (Unparsable _) \<Rightarrow> Inr []
      | Some (Parsed v) \<Rightarrow> bind (iterate v) (map_result from_dict))"

definition save_library :: "Book list \<Rightarrow> string \<Rightarrow> fs \<Rightarrow> fs" where
  "save_library books file_path fs = fs(file_path \<mapsto> Parsed (JArr (map to_dict books)))"

text \<open>The two values of the status, UTF-8 encoded: in stock, and lent out.\<close>

definition status_in_stock :: string where
  "status_in_stock =
     [CHR 0xD0, CHR 0xB2, CHR 0x20, CHR 0xD0, CHR 0xBD, CHR 0xD0, CHR 0xB0, CHR 0xD0, CHR 0xBB,
      CHR 0xD0, CHR 0xB8, CHR 0xD1, CHR 0x87, CHR 0xD0, CHR 0xB8, CHR 0xD0, CHR 0xB8]"

definition status_lent :: string where
  "status_lent =
     [CHR 0xD0, CHR 0xB2, CHR 0xD1, CHR 0x8B, CHR 0xD0, CHR 0xB4, CHR 0xD0, CHR 0xB0, CHR 0xD0, CHR 0xBD,
      CHR 0xD0, CHR 0xB0]"

text \<open>
  The operations that write return their result, or the exception, together with the file
  system they leave. \<^verbatim>\<open>title\<close>, \<^verbatim>\<open>author\<close> and \<^verbatim>\<open>status\<close> are strs and \<^verbatim>\<open>year\<close> and
  \<^verbatim>\<open>book_id\<close> ints, as the signatures declare them. (A parameter that has the name of
  a field of \<open>Book\<close> is written with a prime.)
\<close>

definition add_book :: "string \<Rightarrow> string \<Rightarrow> int \<Rightarrow> string \<Rightarrow> fs \<Rightarrow> (error + Book) \<times> fs" where
  "add_book title' author' year' file_path fs =
     (case load_library file_path fs of
        Inl e \<Rightarrow> (Inl e, fs)
      | Inr books \<Rightarrow>
          let new_id = max_default (map id' books) 0 + 1;
              new_book = \<lparr>id' = new_id, title = JStr title', author = JStr author',
                          year = year', status = JStr status_in_stock\<rparr>
          in (Inr new_book, save_library (books @ [new_book]) file_path fs))"

definition remove_book :: "int \<Rightarrow> string \<Rightarrow> fs \<Rightarrow> (error + bool) \<times> fs" where
  "remove_book book_id file_path fs =
     (case load_library file_path fs of
        Inl e \<Rightarrow> (Inl e, fs)
      | Inr books \<Rightarrow>
          let filtered_books = filter (\<lambda>book. id' book \<noteq> book_id) books
          in if length filtered_books = length books then (Inr False, fs)
             else (Inr True, save_library filtered_books file_path fs))"

text \<open>
  The three filters of \<^verbatim>\<open>search_books\<close>, each applied to what the one before left;
  \<^verbatim>\<open>lower\<close> of a stored title or author that is no str raises.
\<close>

definition search_books ::
  "string \<Rightarrow> string option \<Rightarrow> string option \<Rightarrow> int option \<Rightarrow> fs \<Rightarrow> error + Book list" where
  "search_books file_path title' author' year' fs =
     bind (load_library file_path fs) (\<lambda>books.
     bind (if truthy_str title'
           then filter_result (\<lambda>book.
                  bind (lower (Book.title book)) (\<lambda>s. Inr (sublist (lower_str (the title')) s)))
                  books
           else Inr books) (\<lambda>results.
     bind (if truthy_str author'
           then filter_result (\<lambda>book.
                  bind (lower (Book.author book)) (\<lambda>s. Inr (sublist (lower_str (the author')) s)))
                  results
           else Inr results) (\<lambda>results.
     Inr (if truthy_int year'
          then filter (\<lambda>book. Book.year book = the year') results
          else results))))"

definition list_books :: "string \<Rightarrow> fs \<Rightarrow> error + Book list" where
  "list_books file_path fs = load_library file_path fs"

text \<open>
  The loop of \<^verbatim>\<open>update_book_status\<close>: the first book with the id gets the status, and
  the loop ends there; \<open>None\<close> when the loop runs through without a match.
\<close>

fun set_first_status :: "int \<Rightarrow> string \<Rightarrow> Book list \<Rightarrow> Book list option" where
  "set_first_status book_id status' [] = None"
| "set_first_status book_id status' (book # books) =
     (if id' book = book_id then Some (book\<lparr>status := JStr status'\<rparr> # books)
      else map_option ((#) book) (set_first_status book_id status' books))"

definition update_book_status :: "int \<Rightarrow> string \<Rightarrow> string \<Rightarrow> fs \<Rightarrow> (error + bool) \<times> fs" where
  "update_book_status book_id status' file_path fs =
     (if status' \<notin> set [status_in_stock, status_lent] then (Inl ValueError, fs)
      else
        (case load_library file_path fs of
           Inl e \<Rightarrow> (Inl e, fs)
         | Inr books \<Rightarrow>
             (case set_first_status book_id status' books of
                Some books' \<Rightarrow> (Inr True, save_library books' file_path fs)
              | None \<Rightarrow> (Inr False, fs))))"

section \<open>The stored collections the operations can produce\<close>

text \<open>
  The files at a path that \<^verbatim>\<open>add_book\<close>, \<^verbatim>\<open>remove_book\<close> and \<^verbatim>\<open>update_book_status\<close>
  can leave, starting where there is no file or the file holds the empty array.
\<close>

inductive reachable :: "string \<Rightarrow> fs \<Rightarrow> bool" for file_path :: string where
  start: "fs file_path = None \<or> fs file_path = Some (Parsed (JArr [])) \<Longrightarrow> reachable file_path fs"
| added: "reachable file_path fs \<Longrightarrow>
     reachable file_path (snd (add_book title' author' year' file_path fs))"
| removed: "reachable file_path fs \<Longrightarrow>
     reachable file_path (snd (remove_book book_id file_path fs))"
| updated: "reachable file_path fs \<Longrightarrow>
     reachable file_path (snd (update_book_status book_id status' file_path fs))"

text \<open>The invariant of the data model, on a list of books.\<close>

definition ids_unique :: "Book list \<Rightarrow> bool" where
  "ids_unique books = distinct (map id' books)"

definition status_valid :: "Book \<Rightarrow> bool" where
  "status_valid b = (status b = JStr status_in_stock \<or> status b = JStr status_lent)"

section \<open>The search, as the specification words it\<close>

text \<open>
  A case-insensitive substring match of a search term against a stored field, and the
  conjunction of the filters: a title and an author that are given must match, and a
  year that is given and is not 0 must be the year of the book.
\<close>

definition contains_ci :: "string \<Rightarrow> json \<Rightarrow> bool" where
  "contains_ci needle v =
     (case v of JStr s \<Rightarrow> sublist (lower_str needle) (lower_str s) | _ \<Rightarrow> False)"

definition satisfies_filters :: "string option \<Rightarrow> string option \<Rightarrow> int option \<Rightarrow> Book \<Rightarrow> bool" where
  "satisfies_filters title' author' year' b =
     ((case title' of None \<Rightarrow> True | Some t \<Rightarrow> contains_ci t (title b)) \<and>
      (case author' of None \<Rightarrow> True | Some a \<Rightarrow> contains_ci a (author b)) \<and>
      (case year' of None \<Rightarrow> True | Some y \<Rightarrow> y = 0 \<or> year b = y))"

definition is_str :: "json \<Rightarrow> bool" where
  "is_str v = (case v of JStr _ \<Rightarrow> True | _ \<Rightarrow> False)"


section \<open>A small library\<close>

definition book_one :: Book where
  "book_one = \<lparr>id' = 1, title = JStr ''War and Peace'', author = JStr ''Leo Tolstoy'',
     year = 1869, status = JStr status_in_stock\<rparr>"

definition book_three :: Book where
  "book_three = \<lparr>id' = 3, title = JStr ''The Idiot'', author = JStr ''Fyodor Dostoevsky'',
     year = 1869, status = JStr status_lent\<rparr>"

definition library_json :: string where
  "library_json = ''library.json''"

definition example_fs :: fs where
  "example_fs = save_library [book_one, book_three] library_json (\<lambda>_. None)"

definition dead_souls :: "int \<Rightarrow> Book" where
  "dead_souls n = \<lparr>id' = n, title = JStr ''Dead Souls'', author = JStr ''Nikolai Gogol'',
     year = 1842, status = JStr status_in_stock\<rparr>"

text \<open>Where there was no file, a book is added and then lent out.\<close>

definition lent_fs :: fs where
  "lent_fs = snd (update_book_status 1 status_lent library_json
     (snd (add_book ''Dead Souls'' ''Nikolai Gogol'' 1842 library_json (\<lambda>_. None))))"

section \<open>Sequencing\<close>

lemma bind_Inr [simp]: "bind (Inr x) f = f x"
  by (simp add: bind_def)

lemma bind_Inl [simp]: "bind (Inl e) f = Inl e"
  by (simp add: bind_def)

lemma bind_Inr_right [simp]: "bind r Inr = r"
  by (cases r) simp_all

section \<open>\<^verbatim>\<open>int\<close> reads back what \<^verbatim>\<open>str\<close> writes\<close>

lemma digit_char_props:
  assumes "d < 10"
  shows "is_digit (digit_char d)" and "digit_val (digit_char d) = d"
  using assms by (simp_all add: is_digit_def digit_val_def digit_char_def)

lemma is_digit_not_special:
  assumes "is_digit c"
  shows "\<not> is_space c" and "c \<noteq> CHR ''-''" and "c \<noteq> CHR ''+''"
  using assms by (auto simp: is_digit_def is_space_def)

lemma digits_of_all_digits: "\<forall>c \<in> set (digits_of n). is_digit c"
proof (induction n rule: digits_of.induct)
  case (1 n)
  show ?case
  proof (cases "n < 10")
    case True
    then show ?thesis by (subst digits_of.simps) (simp add: digit_char_props)
  next
    case False
    with 1 show ?thesis by (subst digits_of.simps) (simp add: digit_char_props)
  qed
qed

lemma digits_of_nonempty: "digits_of n \<noteq> []"
  by (subst digits_of.simps) simp

lemma digits_val_all_digits:
  "\<forall>c \<in> set xs. is_digit c \<Longrightarrow>
     digits_val acc xs = Some (foldl (\<lambda>a c. 10 * a + digit_val c) acc xs)"
  by (induction xs arbitrary: acc) simp_all

lemma foldl_digits_of: "foldl (\<lambda>a c. 10 * a + digit_val c) 0 (digits_of n) = n"
proof (induction n rule: digits_of.induct)
  case (1 n)
  show ?case
  proof (cases "n < 10")
    case True
    then show ?thesis by (subst digits_of.simps) (simp add: digit_char_props)
  next
    case False
    with 1 show ?thesis by (subst digits_of.simps) (simp add: digit_char_props)
  qed
qed

lemma parse_nat_digits_of: "parse_nat (digits_of n) = Some n"
proof -
  obtain c cs where eq: "digits_of n = c # cs"
    using digits_of_nonempty [of n] by (cases "digits_of n") auto
  have all: "\<forall>c \<in> set (c # cs). is_digit c"
    using digits_of_all_digits [of n] by (simp only: eq)
  have "parse_nat (c # cs) = digits_val 0 (c # cs)"
    using all by (simp add: parse_nat_def)
  also have "\<dots> = Some (foldl (\<lambda>a c. 10 * a + digit_val c) 0 (c # cs))"
    using all by (rule digits_val_all_digits)
  finally show ?thesis
    using foldl_digits_of [of n] by (simp only: eq)
qed

lemma strip_no_space:
  assumes "s \<noteq> []" and "\<not> is_space (hd s)" and "\<not> is_space (last s)"
  shows "strip s = s"
proof -
  from assms have "dropWhile is_space s = s"
    by (cases s) simp_all
  moreover from assms have "dropWhile is_space (rev s) = rev s"
    by (cases "rev s") (simp_all add: hd_rev)
  ultimately show ?thesis by (simp add: strip_def)
qed

lemma digits_ends_no_space:
  assumes "xs \<noteq> []" and "\<forall>c \<in> set xs. is_digit c"
  shows "\<not> is_space (hd xs)" and "\<not> is_space (last xs)"
proof -
  from assms have "is_digit (hd xs)" "is_digit (last xs)"
    by simp_all
  then show "\<not> is_space (hd xs)" and "\<not> is_space (last xs)"
    by (simp_all add: is_digit_not_special)
qed

lemma strip_digits_of: "strip (digits_of n) = digits_of n"
  using digits_of_nonempty [of n] digits_of_all_digits [of n]
  by (intro strip_no_space digits_ends_no_space)

lemma strip_minus_digits_of: "strip (CHR ''-'' # digits_of n) = CHR ''-'' # digits_of n"
proof (rule strip_no_space)
  show "\<not> is_space (hd (CHR ''-'' # digits_of n))"
    by (simp add: is_space_def)
  show "\<not> is_space (last (CHR ''-'' # digits_of n))"
    using digits_ends_no_space(2) [OF digits_of_nonempty digits_of_all_digits, of n]
    by (simp add: digits_of_nonempty)
qed simp

lemma int_of_str_str_int: "int_of_str (str_int n) = Inr n"
proof (cases "n < 0")
  case True
  then show ?thesis
    by (simp add: int_of_str_def str_int_def strip_minus_digits_of parse_nat_digits_of)
next
  case False
  obtain c cs where eq: "digits_of (nat n) = c # cs"
    using digits_of_nonempty [of "nat n"] by (cases "digits_of (nat n)") auto
  have "is_digit c"
    using digits_of_all_digits [of "nat n"] by (simp add: eq)
  then have "c \<noteq> CHR ''-''" "c \<noteq> CHR ''+''"
    by (simp_all add: is_digit_not_special)
  moreover have "strip (c # cs) = c # cs" "parse_nat (c # cs) = Some (nat n)"
    using strip_digits_of [of "nat n"] parse_nat_digits_of [of "nat n"] by (simp_all add: eq)
  ultimately show ?thesis
    using False by (simp add: int_of_str_def str_int_def eq)
qed

section \<open>What is saved is what is loaded\<close>

lemma from_dict_inverse: "from_dict (to_dict b) = Inr b"
  by (simp add: from_dict_def to_dict_def subscript_def py_int_def int_of_str_str_int)

lemma map_result_from_dict_inverse: "map_result from_dict (map to_dict books) = Inr books"
  by (induction books) (simp_all add: from_dict_inverse)

lemma load_library_save_library:
  "load_library file_path (save_library books file_path fs) = Inr books"
  by (simp add: load_library_def save_library_def iterate_def map_result_from_dict_inverse)

section \<open>Lists\<close>

lemma max_default_Max:
  assumes "xs \<noteq> []"
  shows "max_default xs d = Max (set xs)"
proof (cases xs)
  case Nil
  with assms show ?thesis by simp
next
  case (Cons y ys)
  have "fold max ys y = Max (set (y # ys))"
    by (rule Max.set_eq_fold [symmetric])
  with Cons show ?thesis by (simp add: max_default_def)
qed

lemma max_default_upper: "x \<in> set xs \<Longrightarrow> x \<le> max_default xs d"
proof -
  assume x: "x \<in> set xs"
  then have "xs \<noteq> []" by auto
  then have "max_default xs d = Max (set xs)" by (rule max_default_Max)
  with x show ?thesis by simp
qed

lemma filter_length_same_iff: "length (filter P xs) = length xs \<longleftrightarrow> (\<forall>x \<in> set xs. P x)"
proof (induction xs)
  case Nil
  show ?case by simp
next
  case (Cons x xs)
  have le: "length (filter P xs) \<le> length xs" by simp
  show ?case
  proof (cases "P x")
    case True
    with Cons show ?thesis by simp
  next
    case False
    from le have "length (filter P xs) \<noteq> Suc (length xs)"
      by linarith
    with False show ?thesis by simp
  qed
qed

lemma set_first_status_found:
  assumes "\<forall>x \<in> set pre. id' x \<noteq> book_id" and "id' b = book_id"
  shows "set_first_status book_id s (pre @ b # post) = Some (pre @ b\<lparr>status := JStr s\<rparr> # post)"
  using assms by (induction pre) simp_all

lemma set_first_status_none:
  "set_first_status book_id s books = None \<longleftrightarrow> (\<forall>x \<in> set books. id' x \<noteq> book_id)"
  by (induction books) simp_all

lemma set_first_status_ids:
  "set_first_status book_id s books = Some books' \<Longrightarrow> map id' books' = map id' books"
  by (induction books arbitrary: books') (auto split: if_splits)

lemma set_first_status_statuses:
  "set_first_status book_id s books = Some books' \<Longrightarrow> b' \<in> set books' \<Longrightarrow>
     b' \<in> set books \<or> status b' = JStr s"
  by (induction books arbitrary: books') (auto split: if_splits)

lemma filter_result_total:
  "\<forall>x \<in> set xs. c x = Inr (P x) \<Longrightarrow> filter_result c xs = Inr (filter P xs)"
  by (induction xs) simp_all

section \<open>The record read by \<open>from_dict\<close>\<close>



section \<open>The filters of the search\<close>

lemma lower_JStr [simp]: "lower (JStr s) = Inr (lower_str s)"
  by (simp add: lower_def)

lemma is_str_JStr: "is_str v \<Longrightarrow> \<exists>s. v = JStr s"
  by (cases v) (simp_all add: is_str_def)

lemma text_filter:
  assumes "\<forall>b \<in> set books. is_str (field b)"
  shows "(if truthy_str arg
          then filter_result (\<lambda>book.
                 bind (lower (field book)) (\<lambda>s. Inr (sublist (lower_str (the arg)) s))) books
          else Inr books) =
         Inr (filter (\<lambda>b. case arg of None \<Rightarrow> True | Some t \<Rightarrow> contains_ci t (field b)) books)"
proof (cases arg)
  case None
  then show ?thesis by (simp add: truthy_str_def)
next
  case (Some t)
  have match: "bind (lower (field b)) (\<lambda>s. Inr (sublist (lower_str t) s)) =
      Inr (contains_ci t (field b))" if "b \<in> set books" for b
  proof -
    from assms that obtain s where "field b = JStr s"
      using is_str_JStr by blast
    then show ?thesis by (simp add: contains_ci_def)
  qed
  show ?thesis
  proof (cases "t = []")
    case True
    have "contains_ci [] (field b)" if "b \<in> set books" for b
    proof -
      from assms that obtain s where "field b = JStr s"
        using is_str_JStr by blast
      then show ?thesis by (simp add: contains_ci_def)
    qed
    then have "filter (\<lambda>b. contains_ci [] (field b)) books = books"
      by (simp add: filter_id_conv)
    with Some True show ?thesis by (simp add: truthy_str_def)
  next
    case False
    have "filter_result (\<lambda>book. bind (lower (field book)) (\<lambda>s. Inr (sublist (lower_str t) s))) books =
        Inr (filter (\<lambda>b. contains_ci t (field b)) books)"
      by (rule filter_result_total) (simp add: match)
    with Some False show ?thesis by (simp add: truthy_str_def)
  qed
qed

lemma year_filter:
  "(if truthy_int arg then filter (\<lambda>book. year book = the arg) books else books) =
   filter (\<lambda>b. case arg of None \<Rightarrow> True | Some y \<Rightarrow> y = 0 \<or> year b = y) books"
  by (cases arg) (auto simp: truthy_int_def)

section \<open>Each operation keeps the invariant\<close>

lemma add_book_keeps_invariant:
  assumes "load_library file_path fs = Inr books" and "ids_unique books"
    and "\<forall>b \<in> set books. status_valid b"
  shows "\<exists>books'. load_library file_path (snd (add_book title' author' year' file_path fs)) = Inr books' \<and>
     ids_unique books' \<and> (\<forall>b \<in> set books'. status_valid b)"
proof -
  let ?n = "max_default (map id' books) 0 + 1"
  let ?b = "\<lparr>id' = ?n, title = JStr title', author = JStr author', year = year',
              status = JStr status_in_stock\<rparr>"
  have "snd (add_book title' author' year' file_path fs) = save_library (books @ [?b]) file_path fs"
    using assms(1) by (simp add: add_book_def Let_def)
  then have "load_library file_path (snd (add_book title' author' year' file_path fs)) =
      Inr (books @ [?b])"
    by (simp add: load_library_save_library)
  moreover have "?n \<notin> set (map id' books)"
  proof
    assume "?n \<in> set (map id' books)"
    then have "?n \<le> max_default (map id' books) 0"
      by (rule max_default_upper)
    then show False by simp
  qed
  with assms(2) have "ids_unique (books @ [?b])"
    by (simp add: ids_unique_def)
  moreover have "\<forall>b \<in> set (books @ [?b]). status_valid b"
    using assms(3) by (simp add: status_valid_def)
  ultimately show ?thesis by blast
qed

lemma remove_book_keeps_invariant:
  assumes "load_library file_path fs = Inr books" and "ids_unique books"
    and "\<forall>b \<in> set books. status_valid b"
  shows "\<exists>books'. load_library file_path (snd (remove_book book_id file_path fs)) = Inr books' \<and>
     ids_unique books' \<and> (\<forall>b \<in> set books'. status_valid b)"
proof (cases "length (filter (\<lambda>book. id' book \<noteq> book_id) books) = length books")
  case True
  then have "snd (remove_book book_id file_path fs) = fs"
    using assms(1) by (simp add: remove_book_def Let_def)
  with assms show ?thesis by simp
next
  case False
  let ?f = "filter (\<lambda>book. id' book \<noteq> book_id) books"
  from False have "snd (remove_book book_id file_path fs) = save_library ?f file_path fs"
    using assms(1) by (simp add: remove_book_def Let_def)
  then have "load_library file_path (snd (remove_book book_id file_path fs)) = Inr ?f"
    by (simp add: load_library_save_library)
  moreover from assms(2) have "ids_unique ?f"
    by (simp add: ids_unique_def distinct_map_filter)
  moreover from assms(3) have "\<forall>b \<in> set ?f. status_valid b"
    by simp
  ultimately show ?thesis by blast
qed

lemma update_book_status_keeps_invariant:
  assumes "load_library file_path fs = Inr books" and "ids_unique books"
    and "\<forall>b \<in> set books. status_valid b"
  shows "\<exists>books'. load_library file_path (snd (update_book_status book_id status' file_path fs)) = Inr books' \<and>
     ids_unique books' \<and> (\<forall>b \<in> set books'. status_valid b)"
proof (cases "status' = status_in_stock \<or> status' = status_lent")
  case False
  then have "snd (update_book_status book_id status' file_path fs) = fs"
    by (simp add: update_book_status_def)
  with assms show ?thesis by simp
next
  case valid: True
  show ?thesis
  proof (cases "set_first_status book_id status' books")
    case None
    with valid have "snd (update_book_status book_id status' file_path fs) = fs"
      using assms(1) by (auto simp: update_book_status_def)
    with assms show ?thesis by simp
  next
    case (Some books')
    with valid have "snd (update_book_status book_id status' file_path fs) =
        save_library books' file_path fs"
      using assms(1) by (auto simp: update_book_status_def)
    then have "load_library file_path (snd (update_book_status book_id status' file_path fs)) =
        Inr books'"
      by (simp add: load_library_save_library)
    moreover have "ids_unique books'"
      using assms(2) set_first_status_ids [OF Some] by (simp add: ids_unique_def)
    moreover have "\<forall>b \<in> set books'. status_valid b"
    proof
      fix b assume "b \<in> set books'"
      then have "b \<in> set books \<or> status b = JStr status'"
        by (rule set_first_status_statuses [OF Some])
      with assms(3) valid show "status_valid b"
        by (auto simp: status_valid_def)
    qed
    ultimately show ?thesis by blast
  qed
qed

section \<open>The small library, loaded\<close>

lemma load_example_fs: "load_library library_json example_fs = Inr [book_one, book_three]"
  by (simp add: example_fs_def load_library_save_library)

lemma load_no_file: "load_library file_path (\<lambda>_. None) = Inr []"
  by (simp add: load_library_def)

lemma add_to_no_file:
  "add_book ''Dead Souls'' ''Nikolai Gogol'' 1842 library_json (\<lambda>_. None) =
     (Inr (dead_souls 1), save_library [dead_souls 1] library_json (\<lambda>_. None))"
  by (simp add: add_book_def load_no_file max_default_def dead_souls_def Let_def)

lemma load_lent_fs: "load_library library_json lent_fs = Inr [(dead_souls 1)\<lparr>status := JStr status_lent\<rparr>]"
  by (simp add: lent_fs_def add_to_no_file update_book_status_def load_library_save_library
      dead_souls_def)

section \<open>The claims\<close>

text \<open>
  C1. A book that \<open>to_dict\<close> turns into a record and \<open>from_dict\<close> reads back is the
  same book, in every field: the id and the year go through \<^verbatim>\<open>str\<close> and back through
  \<^verbatim>\<open>int\<close>, the title, the author and the status are stored as they are. This holds for
  every book, whatever its title, author and status hold.
\<close>

theorem to_dict_from_dict_round_trip: "from_dict (to_dict b) = Inr b"
  by (simp add: from_dict_def to_dict_def subscript_def py_int_def int_of_str_str_int)

text \<open>
  C2. \<open>update_book_status\<close> with a status that is neither of the two values raises
  \<^verbatim>\<open>ValueError\<close> and leaves the file system as it was. With one of the two values, when
  the library loads: where \<open>b\<close> is the first book with the id (no book of \<open>pre\<close> has
  it), the result is true, the list with the status of \<open>b\<close> replaced is saved, and
  loading the file again gives that list; where no book has the id, the result is false
  and the file system is as it was.
\<close>

theorem update_book_status_cases:
  "(status' \<noteq> status_in_stock \<and> status' \<noteq> status_lent \<longrightarrow>
      update_book_status book_id status' file_path fs = (Inl ValueError, fs)) \<and>
   ((status' = status_in_stock \<or> status' = status_lent) \<and>
    load_library file_path fs = Inr (pre @ b # post) \<and>
    (\<forall>x \<in> set pre. id' x \<noteq> book_id) \<and> id' b = book_id \<longrightarrow>
      update_book_status book_id status' file_path fs =
        (Inr True, save_library (pre @ b\<lparr>status := JStr status'\<rparr> # post) file_path fs) \<and>
      load_library file_path (save_library (pre @ b\<lparr>status := JStr status'\<rparr> # post) file_path fs) =
        Inr (pre @ b\<lparr>status := JStr status'\<rparr> # post)) \<and>
   ((status' = status_in_stock \<or> status' = status_lent) \<and>
    load_library file_path fs = Inr books \<and> (\<forall>x \<in> set books. id' x \<noteq> book_id) \<longrightarrow>
      update_book_status book_id status' file_path fs = (Inr False, fs))"
proof (intro conjI impI)
  assume "status' \<noteq> status_in_stock \<and> status' \<noteq> status_lent"
  then show "update_book_status book_id status' file_path fs = (Inl ValueError, fs)"
    by (simp add: update_book_status_def)
next
  assume h: "(status' = status_in_stock \<or> status' = status_lent) \<and>
    load_library file_path fs = Inr (pre @ b # post) \<and>
    (\<forall>x \<in> set pre. id' x \<noteq> book_id) \<and> id' b = book_id"
  then have "set_first_status book_id status' (pre @ b # post) =
      Some (pre @ b\<lparr>status := JStr status'\<rparr> # post)"
    by (intro set_first_status_found) simp_all
  with h show "update_book_status book_id status' file_path fs =
      (Inr True, save_library (pre @ b\<lparr>status := JStr status'\<rparr> # post) file_path fs)"
    by (auto simp: update_book_status_def)
next
  show "load_library file_path (save_library (pre @ b\<lparr>status := JStr status'\<rparr> # post) file_path fs) =
      Inr (pre @ b\<lparr>status := JStr status'\<rparr> # post)"
    by (rule load_library_save_library)
next
  assume h: "(status' = status_in_stock \<or> status' = status_lent) \<and>
    load_library file_path fs = Inr books \<and> (\<forall>x \<in> set books. id' x \<noteq> book_id)"
  then have "set_first_status book_id status' books = None"
    by (simp add: set_first_status_none)
  with h show "update_book_status book_id status' file_path fs = (Inr False, fs)"
    by (auto simp: update_book_status_def)
qed

theorem update_book_status_cases_witness:
  "load_library library_json example_fs = Inr [book_one, book_three] \<and>
   update_book_status 3 ''lost'' library_json example_fs = (Inl ValueError, example_fs) \<and>
   update_book_status 3 status_in_stock library_json example_fs =
     (Inr True, save_library [book_one, book_three\<lparr>status := JStr status_in_stock\<rparr>] library_json example_fs) \<and>
   load_library library_json
     (save_library [book_one, book_three\<lparr>status := JStr status_in_stock\<rparr>] library_json example_fs) =
     Inr [book_one, book_three\<lparr>status := JStr status_in_stock\<rparr>] \<and>
   update_book_status 2 status_lent library_json example_fs = (Inr False, example_fs)"
proof -
  have invalid: "''lost'' \<noteq> status_in_stock \<and> ''lost'' \<noteq> status_lent"
    by (simp add: status_in_stock_def status_lent_def)
  have found: "(status_in_stock = status_in_stock \<or> status_in_stock = status_lent) \<and>
      load_library library_json example_fs = Inr ([book_one] @ book_three # []) \<and>
      (\<forall>x \<in> set [book_one]. id' x \<noteq> 3) \<and> id' book_three = 3"
    by (simp add: load_example_fs book_one_def book_three_def)
  have missing: "(status_lent = status_in_stock \<or> status_lent = status_lent) \<and>
      load_library library_json example_fs = Inr [book_one, book_three] \<and>
      (\<forall>x \<in> set [book_one, book_three]. id' x \<noteq> 2)"
    by (simp add: load_example_fs book_one_def book_three_def)
  from invalid found missing show ?thesis
    using update_book_status_cases [of "''lost''" 3 library_json example_fs "[book_one]" book_three "[]" "[]"]
      update_book_status_cases [of status_in_stock 3 library_json example_fs "[book_one]" book_three "[]" "[]"]
      update_book_status_cases [of status_lent 2 library_json example_fs "[]" book_one "[]" "[book_one, book_three]"]
    by (simp add: load_example_fs)
qed

text \<open>
  C3. When the library loads as \<open>books\<close>, \<open>add_book\<close> returns the book whose id is one
  more than the greatest id of \<open>books\<close> (than 0 when there is none), with the title, the
  author and the year given and the status in stock; it saves \<open>books\<close> with the new book
  at the end, and the file loads as that list. On an empty library the id is 1; on a
  library whose ids are 1 and 3 it is 4.
\<close>

theorem add_book_next_id:
  assumes "load_library file_path fs = Inr books"
  shows "let new_book = \<lparr>id' = (if books = [] then 0 else Max (set (map id' books))) + 1,
                          title = JStr title', author = JStr author', year = year',
                          status = JStr status_in_stock\<rparr>
         in add_book title' author' year' file_path fs =
              (Inr new_book, save_library (books @ [new_book]) file_path fs) \<and>
            load_library file_path (save_library (books @ [new_book]) file_path fs) =
              Inr (books @ [new_book]) \<and>
            (books = [] \<longrightarrow> id' new_book = 1) \<and>
            (set (map id' books) = {1, 3} \<longrightarrow> id' new_book = 4)"
proof -
  let ?n = "(if books = [] then 0 else Max (set (map id' books))) + 1"
  let ?b = "\<lparr>id' = ?n, title = JStr title', author = JStr author', year = year',
              status = JStr status_in_stock\<rparr>"
  have n: "max_default (map id' books) 0 + 1 = ?n"
  proof (cases "books = []")
    case True
    then show ?thesis by (simp add: max_default_def)
  next
    case False
    then show ?thesis by (simp add: max_default_Max)
  qed
  have "add_book title' author' year' file_path fs =
      (Inr ?b, save_library (books @ [?b]) file_path fs)"
    using assms n by (simp add: add_book_def Let_def)
  moreover have "load_library file_path (save_library (books @ [?b]) file_path fs) =
      Inr (books @ [?b])"
    by (rule load_library_save_library)
  moreover have "books = [] \<longrightarrow> id' ?b = 1"
    by simp
  moreover have "set (map id' books) = {1, 3} \<longrightarrow> id' ?b = 4"
  proof
    assume s: "set (map id' books) = {1, 3}"
    then have "books \<noteq> []" by auto
    moreover from s have "Max (set (map id' books)) = 3" by simp
    ultimately show "id' ?b = 4" by simp
  qed
  ultimately show ?thesis unfolding Let_def by (intro conjI)
qed

theorem add_book_next_id_witness:
  "load_library library_json example_fs = Inr [book_one, book_three] \<and>
   set (map id' [book_one, book_three]) = {1, 3} \<and>
   add_book ''Dead Souls'' ''Nikolai Gogol'' 1842 library_json example_fs =
     (Inr (dead_souls 4), save_library [book_one, book_three, dead_souls 4] library_json example_fs) \<and>
   load_library library_json (save_library [book_one, book_three, dead_souls 4] library_json example_fs) =
     Inr [book_one, book_three, dead_souls 4] \<and>
   load_library library_json (\<lambda>_. None) = Inr [] \<and>
   add_book ''Dead Souls'' ''Nikolai Gogol'' 1842 library_json (\<lambda>_. None) =
     (Inr (dead_souls 1), save_library [dead_souls 1] library_json (\<lambda>_. None))"
proof -
  have ids: "set (map id' [book_one, book_three]) = {1, 3}"
    by (simp add: book_one_def book_three_def)
  have four: "(if [book_one, book_three] = [] then 0 else Max (set (map id' [book_one, book_three]))) + 1 = 4"
    by (simp add: book_one_def book_three_def)
  have one: "(if ([]::Book list) = [] then 0 else Max (set (map id' []))) + 1 = 1"
    by simp
  have full: "add_book ''Dead Souls'' ''Nikolai Gogol'' 1842 library_json example_fs =
       (Inr (dead_souls 4), save_library [book_one, book_three, dead_souls 4] library_json example_fs) \<and>
     load_library library_json (save_library [book_one, book_three, dead_souls 4] library_json example_fs) =
       Inr [book_one, book_three, dead_souls 4]"
    using add_book_next_id [OF load_example_fs, of "''Dead Souls''" "''Nikolai Gogol''" 1842]
    unfolding Let_def four by (simp add: dead_souls_def [symmetric])
  have empty: "add_book ''Dead Souls'' ''Nikolai Gogol'' 1842 library_json (\<lambda>_. None) =
       (Inr (dead_souls 1), save_library [dead_souls 1] library_json (\<lambda>_. None))"
    using add_book_next_id [OF load_no_file, of "''Dead Souls''" "''Nikolai Gogol''" 1842 library_json]
    unfolding Let_def one by (simp add: dead_souls_def [symmetric])
  from load_example_fs ids full load_no_file empty show ?thesis
    by (intro conjI) (erule conjunct1 conjunct2 | assumption)+
qed

text \<open>
  C4. When the library loads as \<open>books\<close>: if no book has the id, \<open>remove_book\<close> returns
  false and the file system is as it was; otherwise it returns true and saves the books
  whose id is another one, and the file loads as that list.
\<close>

theorem remove_book_cases:
  assumes "load_library file_path fs = Inr books"
  shows "(if \<forall>b \<in> set books. id' b \<noteq> book_id
          then remove_book book_id file_path fs = (Inr False, fs)
          else remove_book book_id file_path fs =
                 (Inr True, save_library (filter (\<lambda>b. id' b \<noteq> book_id) books) file_path fs) \<and>
               load_library file_path
                 (save_library (filter (\<lambda>b. id' b \<noteq> book_id) books) file_path fs) =
                 Inr (filter (\<lambda>b. id' b \<noteq> book_id) books))"
  using assms
  by (simp add: remove_book_def Let_def filter_length_same_iff load_library_save_library)

theorem remove_book_cases_witness:
  "load_library library_json example_fs = Inr [book_one, book_three] \<and>
   remove_book 2 library_json example_fs = (Inr False, example_fs) \<and>
   remove_book 1 library_json example_fs =
     (Inr True, save_library [book_three] library_json example_fs) \<and>
   load_library library_json (save_library [book_three] library_json example_fs) = Inr [book_three]"
  using remove_book_cases [OF load_example_fs, of 2] remove_book_cases [OF load_example_fs, of 1]
  by (simp add: load_example_fs book_one_def book_three_def)

text \<open>
  C5, as amended. When the library loads as \<open>books\<close> and every title and author in it
  is a str, \<open>search_books\<close> returns exactly the books, in their order, that satisfy all
  the filters together: the title given occurs in the title, and the author given in the
  author, both compared in lower case, and the year given, when it is not 0, is the year
  of the book. A year of 0 filters nothing.
\<close>

theorem search_books_conjunction:
  assumes "load_library file_path fs = Inr books"
    and "\<forall>b \<in> set books. is_str (title b) \<and> is_str (author b)"
  shows "search_books file_path title' author' year' fs =
     Inr (filter (satisfies_filters title' author' year') books)"
proof -
  let ?T = "\<lambda>b. case title' of None \<Rightarrow> True | Some t \<Rightarrow> contains_ci t (title b)"
  let ?A = "\<lambda>b. case author' of None \<Rightarrow> True | Some a \<Rightarrow> contains_ci a (author b)"
  let ?Y = "\<lambda>b. case year' of None \<Rightarrow> True | Some y \<Rightarrow> y = 0 \<or> year b = y"
  have t: "(if truthy_str title'
          then filter_result (\<lambda>book.
                 bind (lower (title book)) (\<lambda>s. Inr (sublist (lower_str (the title')) s))) books
          else Inr books) = Inr (filter ?T books)"
    using assms(2) by (intro text_filter) simp
  have a: "(if truthy_str author'
          then filter_result (\<lambda>book.
                 bind (lower (author book)) (\<lambda>s. Inr (sublist (lower_str (the author')) s)))
                 (filter ?T books)
          else Inr (filter ?T books)) = Inr (filter ?A (filter ?T books))"
    using assms(2) by (intro text_filter) simp
  have "search_books file_path title' author' year' fs =
      Inr (filter ?Y (filter ?A (filter ?T books)))"
    unfolding search_books_def assms(1) bind_Inr t a year_filter ..
  also have "filter ?Y (filter ?A (filter ?T books)) =
      filter (satisfies_filters title' author' year') books"
    by (auto simp: satisfies_filters_def intro: filter_cong)
  finally show ?thesis .
qed

theorem search_books_conjunction_witness:
  "load_library library_json example_fs = Inr [book_one, book_three] \<and>
   search_books library_json (Some ''WAR'') (Some ''tol'') (Some 1869) example_fs = Inr [book_one] \<and>
   search_books library_json (Some ''WAR'') (Some ''dost'') None example_fs = Inr [] \<and>
   search_books library_json None None (Some 1869) example_fs = Inr [book_one, book_three]"
proof -
  have strs: "\<forall>b \<in> set [book_one, book_three]. is_str (title b) \<and> is_str (author b)"
    by (simp add: book_one_def book_three_def is_str_def)
  have 1: "filter (satisfies_filters (Some ''WAR'') (Some ''tol'') (Some 1869)) [book_one, book_three] = [book_one]"
    by code_simp
  have 2: "filter (satisfies_filters (Some ''WAR'') (Some ''dost'') None) [book_one, book_three] = []"
    by code_simp
  have 3: "filter (satisfies_filters None None (Some 1869)) [book_one, book_three] = [book_one, book_three]"
    by code_simp
  show ?thesis
    using search_books_conjunction [OF load_example_fs strs, of "Some ''WAR''" "Some ''tol''" "Some 1869"]
      search_books_conjunction [OF load_example_fs strs, of "Some ''WAR''" "Some ''dost''" None]
      search_books_conjunction [OF load_example_fs strs, of None None "Some 1869"]
    by (simp only: 1 2 3 load_example_fs simp_thms)
qed

text \<open>
  C5, as the claim has it, fails for the year 0: it is given, no stored book has it, and
  the search still returns both books.
\<close>

theorem search_books_year_zero_counterexample:
  "search_books library_json None None (Some 0) example_fs = Inr [book_one, book_three] \<and>
   year book_one \<noteq> 0 \<and> year book_three \<noteq> 0"
  by (simp add: search_books_def truthy_str_def truthy_int_def load_example_fs
      book_one_def book_three_def)






text \<open>
  C8. In every file that \<open>add_book\<close>, \<open>remove_book\<close> and \<open>update_book_status\<close> can
  leave, starting from the empty library, the library loads, no two books have the same
  id, and the status of every book is one of the two values.
\<close>

theorem reachable_ids_unique_status_valid:
  assumes "reachable file_path fs"
  shows "\<exists>books. load_library file_path fs = Inr books \<and> ids_unique books \<and>
     (\<forall>b \<in> set books. status_valid b)"
  using assms
proof (induction rule: reachable.induct)
  case (start fs)
  then have "load_library file_path fs = Inr []"
    by (auto simp: load_library_def iterate_def)
  then show ?case by (simp add: ids_unique_def)
next
  case (added fs title' author' year')
  then show ?case by (blast intro: add_book_keeps_invariant)
next
  case (removed fs book_id)
  then show ?case by (blast intro: remove_book_keeps_invariant)
next
  case (updated fs book_id status')
  then show ?case by (blast intro: update_book_status_keeps_invariant)
qed

theorem reachable_ids_unique_status_valid_witness:
  "reachable library_json lent_fs \<and>
   load_library library_json lent_fs = Inr [(dead_souls 1)\<lparr>status := JStr status_lent\<rparr>] \<and>
   ids_unique [(dead_souls 1)\<lparr>status := JStr status_lent\<rparr>] \<and>
   status_valid ((dead_souls 1)\<lparr>status := JStr status_lent\<rparr>)"
proof -
  have "reachable library_json (\<lambda>_. None)"
    by (rule reachable.start) simp
  then have "reachable library_json
      (snd (add_book ''Dead Souls'' ''Nikolai Gogol'' 1842 library_json (\<lambda>_. None)))"
    by (rule reachable.added)
  then have r: "reachable library_json lent_fs"
    unfolding lent_fs_def by (rule reachable.updated)
  from reachable_ids_unique_status_valid [OF r] load_lent_fs r show ?thesis
    by auto
qed

text \<open>
  C9. Loading the library, saving what was loaded and loading again gives what the first
  load gave: the same books in the same order, or the same exception (and then nothing
  was saved).
\<close>

theorem save_after_load_keeps_books:
  "bind (load_library file_path fs)
     (\<lambda>books. load_library file_path (save_library books file_path fs)) =
   load_library file_path fs"
  by (cases "load_library file_path fs") (simp_all add: load_library_save_library)

text \<open>
  C10. An empty title, an empty author and the year 0 are each treated as an argument
  that was not given; a search with all three returns what \<open>load_library\<close> returns,
  every stored book.
\<close>

theorem search_books_falsy_arguments:
  "search_books file_path (Some []) author' year' fs = search_books file_path None author' year' fs \<and>
   search_books file_path title' (Some []) year' fs = search_books file_path title' None year' fs \<and>
   search_books file_path title' author' (Some 0) fs = search_books file_path title' author' None fs \<and>
   search_books file_path (Some []) (Some []) (Some 0) fs = load_library file_path fs"
  by (simp add: search_books_def truthy_str_def truthy_int_def)

end
